theory Spec2Isabelle
  imports Main
begin

section \<open>The document store\<close>

text \<open>
  The application keeps all of its data in a hosted document database and talks to it
  from three pages: the browse page (connection requests), the profile page (accepting
  and rejecting requests, deleting the account) and the messages page (the chat with its
  block handling). The store is modelled as a record of its two collections; every
  handler takes the store and returns the store it leaves behind.

  User and message ids are strings. A message text is a JavaScript string, that is a
  sequence of UTF-16 code units, kept here as a list of numbers, because
  \<^verbatim>\<open>trim\<close> removes code units above the 8-bit range as well.
\<close>

type_synonym uid = string
type_synonym mid = string
type_synonym jsstring = "nat list"

text \<open>
  A user document. Registration writes none of the three relationship arrays, and the
  pages read each of them as \<^verbatim>\<open>data.field || []\<close>, so every array may be absent.
\<close>

record user_doc =
  connections :: "uid list option"
  pendingConnections :: "uid list option"
  blockedUsers :: "uid list option"

record message_doc =
  senderId :: uid
  receiverId :: uid
  msgText :: jsstring
  timestamp :: nat
  seen :: bool
  reactions :: "(uid \<times> jsstring) list"
  isDeleted :: bool
  edited :: bool

text \<open>The page's \<^verbatim>\<open>Message\<close> is a document together with its id.\<close>

type_synonym message = "mid \<times> message_doc"

text \<open>
  \<open>unreadable\<close> holds the ids of the user documents whose \<^verbatim>\<open>getDoc\<close> is
  rejected (the client is offline, or the rules deny the read); \<open>serverTime\<close> is
  what \<^verbatim>\<open>serverTimestamp()\<close> resolves to.
\<close>

record firestore =
  users_coll :: "uid \<rightharpoonup> user_doc"
  messages_coll :: "mid \<rightharpoonup> message_doc"
  unreadable :: "uid set"
  serverTime :: nat

text \<open>The outcome of a promise: rejected (the \<^verbatim>\<open>await\<close> throws) or fulfilled.\<close>

datatype 'a promise = Rejected | Fulfilled 'a

definition orEmpty :: "'a list option \<Rightarrow> 'a list" where
  "orEmpty field = (case field of None \<Rightarrow> [] | Some xs \<Rightarrow> xs)"

definition getDoc :: "firestore \<Rightarrow> uid \<Rightarrow> user_doc option promise" where
  "getDoc db u = (if u \<in> unreadable db then Rejected else Fulfilled (users_coll db u))"

text \<open>
  \<^verbatim>\<open>updateDoc\<close> rejects when the document does not exist. That is the only
  rejected write of the model: a write lost to the network is not represented, so a
  handler's \<^verbatim>\<open>catch\<close> runs here only for a failed read or a missing document.
\<close>

definition updateDoc :: "uid \<Rightarrow> (user_doc \<Rightarrow> user_doc) \<Rightarrow> firestore \<Rightarrow> firestore promise" where
  "updateDoc u f db =
     (case users_coll db u of
        None \<Rightarrow> Rejected
      | Some d \<Rightarrow> Fulfilled (db\<lparr>users_coll := (users_coll db)(u \<mapsto> f d)\<rparr>))"

definition deleteDoc :: "uid \<Rightarrow> firestore \<Rightarrow> firestore" where
  "deleteDoc u db = db\<lparr>users_coll := (users_coll db)(u := None)\<rparr>"

definition updateMessageDoc ::
  "mid \<Rightarrow> (message_doc \<Rightarrow> message_doc) \<Rightarrow> firestore \<Rightarrow> firestore promise" where
  "updateMessageDoc i f db =
     (case messages_coll db i of
        None \<Rightarrow> Rejected
      | Some m \<Rightarrow> Fulfilled (db\<lparr>messages_coll := (messages_coll db)(i \<mapsto> f m)\<rparr>))"

text \<open>
  \<^verbatim>\<open>addDoc\<close> stores the document under an id the client library draws at random;
  the drawn id is an input of the model.
\<close>

definition addDoc :: "mid \<Rightarrow> message_doc \<Rightarrow> firestore \<Rightarrow> firestore" where
  "addDoc autoId m db = db\<lparr>messages_coll := (messages_coll db)(autoId \<mapsto> m)\<rparr>"

text \<open>
  A write batch of \<^verbatim>\<open>update(ref, {seen: true})\<close> operations commits atomically:
  all of them or, when one of the documents is gone, none.
\<close>

definition batchSeen :: "mid list \<Rightarrow> firestore \<Rightarrow> firestore promise" where
  "batchSeen ids db =
     (if list_all (\<lambda>i. messages_coll db i \<noteq> None) ids
      then Fulfilled (db\<lparr>messages_coll :=
             (\<lambda>i. if i \<in> set ids then map_option (\<lambda>m. m\<lparr>seen := True\<rparr>) (messages_coll db i)
                  else messages_coll db i)\<rparr>)
      else Rejected)"

text \<open>
  \<^verbatim>\<open>arrayUnion(x)\<close> appends \<open>x\<close> unless the array holds it already;
  \<^verbatim>\<open>arrayRemove(x)\<close> removes every occurrence. Both create the array when the
  field is absent.
\<close>

definition arrayUnion :: "'a \<Rightarrow> 'a list option \<Rightarrow> 'a list option" where
  "arrayUnion x field =
     (let xs = orEmpty field in Some (if x \<in> set xs then xs else xs @ [x]))"

definition arrayRemove :: "'a \<Rightarrow> 'a list option \<Rightarrow> 'a list option" where
  "arrayRemove x field = Some (filter (\<lambda>y. y \<noteq> x) (orEmpty field))"

section \<open>Block status\<close>

text \<open>
  \<^verbatim>\<open>isUserBlocked\<close> reads the blocker's document inside a
  \<^verbatim>\<open>try\<close>: a missing document and a failed read both give \<open>False\<close>.
\<close>

definition isUserBlocked :: "firestore \<Rightarrow> uid \<Rightarrow> uid \<Rightarrow> bool" where
  "isUserBlocked db blockerId blockedId =
     (case getDoc db blockerId of
        Fulfilled (Some userDoc) \<Rightarrow> blockedId \<in> set (orEmpty (blockedUsers userDoc))
      | Fulfilled None \<Rightarrow> False
      | Rejected \<Rightarrow> False)"

record block_status =
  user1BlocksUser2 :: bool
  user2BlocksUser1 :: bool

definition checkMutualBlockStatus :: "firestore \<Rightarrow> uid \<Rightarrow> uid \<Rightarrow> block_status" where
  "checkMutualBlockStatus db user1Id user2Id =
     \<lparr>user1BlocksUser2 = isUserBlocked db user1Id user2Id,
      user2BlocksUser1 = isUserBlocked db user2Id user1Id\<rparr>"

text \<open>What the store itself says: the blocker's record exists and lists the other user.\<close>

definition storedBlock :: "firestore \<Rightarrow> uid \<Rightarrow> uid \<Rightarrow> bool" where
  "storedBlock db blockerId blockedId =
     (case users_coll db blockerId of
        None \<Rightarrow> False
      | Some userDoc \<Rightarrow> blockedId \<in> set (orEmpty (blockedUsers userDoc)))"

section \<open>The messages page\<close>

text \<open>
  \<^verbatim>\<open>String.prototype.trim\<close> strips white space and line terminators from both
  ends: tab, line feed, vertical tab, form feed, carriage return, space, no-break space,
  the Unicode space separators, line and paragraph separator, and the byte order mark.
\<close>

definition isWhiteSpace :: "nat \<Rightarrow> bool" where
  "isWhiteSpace c =
     (c \<in> set [9, 10, 11, 12, 13, 32, 160, 5760, 8232, 8233, 8239, 8287, 12288, 65279]
      \<or> (8192 \<le> c \<and> c \<le> 8202))"

definition trim :: "jsstring \<Rightarrow> jsstring" where
  "trim s = rev (dropWhile isWhiteSpace (rev (dropWhile isWhiteSpace s)))"

text \<open>The component state of the page that the handlers read and set.\<close>

record page_state =
  currentUser :: "uid option"
  selectedUser :: "uid option"
  messages :: "message list"
  newMessage :: jsstring
  editingMessageId :: "mid option"
  editingMessageText :: jsstring
  isBlocked :: bool
  isBlockedByThem :: bool
  isReported :: bool
  loading :: bool

text \<open>
  What a handler lets the user see of its run: an early \<^verbatim>\<open>return\<close>, a silent
  completion, an \<^verbatim>\<open>alert\<close>, a snackbar, the error banner set from a caught
  error, a caught error that is only logged, a rejection nobody catches, or the
  navigation to another route.
\<close>

datatype outcome =
    Returned
  | Completed
  | Alert string
  | Snackbar string
  | SetError
  | ConsoleError string
  | UncaughtRejection
  | Navigated string

definition updateBlockStatus :: "page_state \<Rightarrow> firestore \<Rightarrow> page_state" where
  "updateBlockStatus p db =
     (case (currentUser p, selectedUser p) of
        (Some me, Some other) \<Rightarrow>
          (let blockStatus = checkMutualBlockStatus db me other
           in p\<lparr>isBlocked := user1BlocksUser2 blockStatus,
                isBlockedByThem := user2BlocksUser1 blockStatus\<rparr>)
      | _ \<Rightarrow> p)"

text \<open>
  The callback of the message subscription. It checks the block status first and
  clears the list when either side blocks; otherwise it flags the unseen messages
  addressed to the current user in one batch and shows the snapshot. A failed batch
  is caught and logged, and the list stays as it was. The unread counter and the
  last-message preview, which the callback sets as well, are left out.
\<close>

definition onSnapshotCallback ::
  "message list \<Rightarrow> page_state \<Rightarrow> firestore \<Rightarrow> page_state \<times> firestore" where
  "onSnapshotCallback snapshot p db =
     (case (currentUser p, selectedUser p) of
        (Some me, Some other) \<Rightarrow>
          (let blockStatus = checkMutualBlockStatus db me other
           in if user1BlocksUser2 blockStatus \<or> user2BlocksUser1 blockStatus
              then (p\<lparr>messages := []\<rparr>, db)
              else (let messagesData = snapshot;
                        batch = map fst (filter (\<lambda>(i, m). receiverId m = me \<and> \<not> seen m)
                                            messagesData)
                    in case batchSeen batch db of
                         Rejected \<Rightarrow> (p, db)
                       | Fulfilled db' \<Rightarrow> (p\<lparr>messages := messagesData\<rparr>, db')))
      | _ \<Rightarrow> (p, db))"

definition blockedByThemAlert :: string where
  "blockedByThemAlert = ''Cannot send message. You have been blocked by this user.''"

definition blockedByMeAlert :: string where
  "blockedByMeAlert = ''Cannot send message. You have blocked this user. Unblock them first.''"

definition handleSendMessage ::
  "mid \<Rightarrow> page_state \<Rightarrow> firestore \<Rightarrow> outcome \<times> page_state \<times> firestore" where
  "handleSendMessage autoId p db =
     (case (currentUser p, selectedUser p) of
        (Some me, Some other) \<Rightarrow>
          if trim (newMessage p) = [] then (Returned, p, db)
          else (let blockStatus = checkMutualBlockStatus db me other
                in if user2BlocksUser1 blockStatus then (Alert blockedByThemAlert, p, db)
                   else if user1BlocksUser2 blockStatus then (Alert blockedByMeAlert, p, db)
                   else (Completed, p\<lparr>newMessage := []\<rparr>,
                         addDoc autoId
                           \<lparr>senderId = me, receiverId = other, msgText = trim (newMessage p),
                            timestamp = serverTime db, seen = False, reactions = [],
                            isDeleted = False, edited = False\<rparr> db))
      | _ \<Rightarrow> (Returned, p, db))"

definition handleDeleteMessage ::
  "mid \<Rightarrow> page_state \<Rightarrow> firestore \<Rightarrow> outcome \<times> page_state \<times> firestore" where
  "handleDeleteMessage messageId p db =
     (case currentUser p of
        None \<Rightarrow> (Returned, p, db)
      | Some me \<Rightarrow>
          (case updateMessageDoc messageId (\<lambda>m. m\<lparr>isDeleted := True\<rparr>) db of
             Rejected \<Rightarrow> (ConsoleError ''Error deleting message:'', p, db)
           | Fulfilled db' \<Rightarrow> (Completed, p, db')))"

definition handleEditMessage ::
  "mid \<Rightarrow> jsstring \<Rightarrow> page_state \<Rightarrow> firestore \<Rightarrow> outcome \<times> page_state \<times> firestore" where
  "handleEditMessage messageId newText p db =
     (case currentUser p of
        None \<Rightarrow> (Returned, p, db)
      | Some me \<Rightarrow>
          (case updateMessageDoc messageId (\<lambda>m. m\<lparr>msgText := newText, edited := True\<rparr>) db of
             Rejected \<Rightarrow> (ConsoleError ''Error editing message:'', p, db)
           | Fulfilled db' \<Rightarrow>
               (Completed, p\<lparr>editingMessageId := None, editingMessageText := []\<rparr>, db')))"

definition handleBlockUser ::
  "uid \<Rightarrow> page_state \<Rightarrow> firestore \<Rightarrow> outcome \<times> page_state \<times> firestore" where
  "handleBlockUser userId p db =
     (case currentUser p of
        None \<Rightarrow> (Returned, p, db)
      | Some me \<Rightarrow>
          (case getDoc db me of
             Rejected \<Rightarrow> (Alert ''Failed to block user. Please try again.'', p, db)
           | Fulfilled None \<Rightarrow> (Completed, p, db)
           | Fulfilled (Some userDoc) \<Rightarrow>
               (let blocked = orEmpty (blockedUsers userDoc)
                in if userId \<notin> set blocked
                   then (case updateDoc me (\<lambda>d. d\<lparr>blockedUsers := Some (blocked @ [userId])\<rparr>) db of
                           Rejected \<Rightarrow> (Alert ''Failed to block user. Please try again.'', p, db)
                         | Fulfilled db' \<Rightarrow>
                             (Alert ''User blocked successfully.'',
                              p\<lparr>isBlocked := True, messages := []\<rparr>, db'))
                   else (Alert ''User is already blocked.'', p, db))))"

definition handleUnblockUser ::
  "uid \<Rightarrow> page_state \<Rightarrow> firestore \<Rightarrow> outcome \<times> page_state \<times> firestore" where
  "handleUnblockUser userId p db =
     (case currentUser p of
        None \<Rightarrow> (Returned, p, db)
      | Some me \<Rightarrow>
          (case getDoc db me of
             Rejected \<Rightarrow> (Alert ''Failed to unblock user. Please try again.'', p, db)
           | Fulfilled None \<Rightarrow> (Completed, p, db)
           | Fulfilled (Some userDoc) \<Rightarrow>
               (let blocked = orEmpty (blockedUsers userDoc)
                in if userId \<in> set blocked
                   then (let updatedBlockedUsers = filter (\<lambda>id'. id' \<noteq> userId) blocked
                         in case updateDoc me (\<lambda>d. d\<lparr>blockedUsers := Some updatedBlockedUsers\<rparr>) db of
                              Rejected \<Rightarrow>
                                (Alert ''Failed to unblock user. Please try again.'', p, db)
                            | Fulfilled db' \<Rightarrow>
                                (Alert ''User unblocked successfully.'', p\<lparr>isBlocked := False\<rparr>, db'))
                   else (Alert ''User is not blocked.'', p, db))))"

subsection \<open>What the page renders\<close>

text \<open>
  The messages area of an open conversation: the blocked banner comes first, then the
  loading skeleton, the empty-conversation notice, and only then the message bubbles.
\<close>

datatype messages_area =
    SelectConversation
  | BlockedBanner string
  | Skeletons
  | NoMessagesYet
  | Bubbles "message list"

definition messagesArea :: "page_state \<Rightarrow> messages_area" where
  "messagesArea p =
     (if selectedUser p = None then SelectConversation
      else if isBlocked p \<or> isBlockedByThem p
      then BlockedBanner (if isBlockedByThem p then ''You have been blocked by this user''
                          else ''You have blocked this user'')
      else if loading p then Skeletons
      else if messages p = [] then NoMessagesYet
      else Bubbles (messages p))"

definition visibleMessages :: "page_state \<Rightarrow> message list" where
  "visibleMessages p = (case messagesArea p of Bubbles ms \<Rightarrow> ms | _ \<Rightarrow> [])"

text \<open>
  One bubble: a deleted message shows a placeholder, the message being edited shows the
  edit box, and any other message shows its text, with the edit and delete buttons only
  on the current user's own, undeleted messages.
\<close>

datatype bubble = MessageDeleted | EditBox | TextShown bool

definition renderMessage :: "page_state \<Rightarrow> message \<Rightarrow> bubble" where
  "renderMessage p message =
     (if isDeleted (snd message) then MessageDeleted
      else if editingMessageId p = Some (fst message) then EditBox
      else TextShown (Some (senderId (snd message)) = currentUser p
                      \<and> \<not> isDeleted (snd message)))"

section \<open>The browse page\<close>

text \<open>
  A profile card shows one of three sets of buttons, decided from the shown profile's
  own arrays only: connected (with Disconnect and Message), request sent (with Cancel),
  or the Connect button. The handlers' bookkeeping of the page's local copy of the
  profiles is left out; what they do to the store is kept.
\<close>

datatype status_buttons = ShowConnected | ShowRequestSent | ShowConnect

definition statusButtons :: "uid \<Rightarrow> user_doc \<Rightarrow> status_buttons" where
  "statusButtons me profile =
     (if me \<in> set (orEmpty (connections profile)) then ShowConnected
      else if me \<in> set (orEmpty (pendingConnections profile)) then ShowRequestSent
      else ShowConnect)"

definition handleAddFriend :: "uid option \<Rightarrow> uid \<Rightarrow> firestore \<Rightarrow> outcome \<times> firestore" where
  "handleAddFriend user profileId db =
     (case user of
        None \<Rightarrow> (Returned, db)
      | Some me \<Rightarrow>
          (case updateDoc profileId
                  (\<lambda>d. d\<lparr>pendingConnections := arrayUnion me (pendingConnections d)\<rparr>) db of
             Rejected \<Rightarrow> (UncaughtRejection, db)
           | Fulfilled db' \<Rightarrow> (Completed, db')))"

definition handleCancelRequest :: "uid option \<Rightarrow> uid \<Rightarrow> firestore \<Rightarrow> outcome \<times> firestore" where
  "handleCancelRequest user profileId db =
     (case user of
        None \<Rightarrow> (Returned, db)
      | Some me \<Rightarrow>
          (case updateDoc profileId
                  (\<lambda>d. d\<lparr>pendingConnections := arrayRemove me (pendingConnections d)\<rparr>) db of
             Rejected \<Rightarrow> (UncaughtRejection, db)
           | Fulfilled db' \<Rightarrow> (Completed, db')))"

section \<open>The profile page and the admin page\<close>

definition handleAcceptConnection ::
  "uid option \<Rightarrow> uid \<Rightarrow> firestore \<Rightarrow> outcome \<times> firestore" where
  "handleAcceptConnection user connectionId db =
     (case user of
        None \<Rightarrow> (Returned, db)
      | Some me \<Rightarrow>
          (case updateDoc me
                  (\<lambda>d. d\<lparr>connections := arrayUnion connectionId (connections d),
                         pendingConnections := arrayRemove connectionId (pendingConnections d)\<rparr>)
                  db of
             Rejected \<Rightarrow> (SetError, db)
           | Fulfilled db1 \<Rightarrow>
               (case updateDoc connectionId
                       (\<lambda>d. d\<lparr>connections := arrayUnion me (connections d),
                              pendingConnections := arrayRemove me (pendingConnections d)\<rparr>)
                       db1 of
                  Rejected \<Rightarrow> (SetError, db1)
                | Fulfilled db2 \<Rightarrow> (Snackbar ''Connection request accepted!'', db2))))"

definition handleRejectConnection ::
  "uid option \<Rightarrow> uid \<Rightarrow> firestore \<Rightarrow> outcome \<times> firestore" where
  "handleRejectConnection user connectionId db =
     (case user of
        None \<Rightarrow> (Returned, db)
      | Some me \<Rightarrow>
          (case updateDoc me
                  (\<lambda>d. d\<lparr>pendingConnections := arrayRemove connectionId (pendingConnections d)\<rparr>)
                  db of
             Rejected \<Rightarrow> (SetError, db)
           | Fulfilled db' \<Rightarrow> (Snackbar ''Connection request rejected!'', db')))"

text \<open>
  Deleting the account asks for confirmation, then deletes the user's own document,
  then deletes the account at the authentication service, and then leaves for the
  landing page. The answer of the authentication service to \<^verbatim>\<open>user.delete()\<close>
  is an input, \<open>userDelete\<close>: when it refuses (it does so when the login is not
  recent), the error banner is set, with the document already deleted. The admin's
  delete removes the document of any user id and shows a snackbar.
\<close>

definition handleDeleteAccount ::
  "bool \<Rightarrow> unit promise \<Rightarrow> uid option \<Rightarrow> firestore \<Rightarrow> outcome \<times> firestore" where
  "handleDeleteAccount confirmed userDelete user db =
     (if confirmed
      then (case user of
              None \<Rightarrow> (SetError, db)
            | Some me \<Rightarrow>
                (let db' = deleteDoc me db
                 in case userDelete of
                      Rejected \<Rightarrow> (SetError, db')
                    | Fulfilled _ \<Rightarrow> (Navigated ''/'', db')))
      else (Returned, db))"

definition handleDeleteUser :: "bool \<Rightarrow> uid \<Rightarrow> firestore \<Rightarrow> outcome \<times> firestore" where
  "handleDeleteUser confirmed userId db =
     (if confirmed then (Snackbar ''User deleted successfully.'', deleteDoc userId db)
      else (Returned, db))"

section \<open>Reading the stored relationship arrays\<close>

text \<open>The arrays of a user as the store holds them; empty when the user or the array is absent.\<close>

definition connectionsOf :: "firestore \<Rightarrow> uid \<Rightarrow> uid list" where
  "connectionsOf db u = (case users_coll db u of None \<Rightarrow> [] | Some d \<Rightarrow> orEmpty (connections d))"

definition pendingOf :: "firestore \<Rightarrow> uid \<Rightarrow> uid list" where
  "pendingOf db u =
     (case users_coll db u of None \<Rightarrow> [] | Some d \<Rightarrow> orEmpty (pendingConnections d))"

definition blockedOf :: "firestore \<Rightarrow> uid \<Rightarrow> uid list" where
  "blockedOf db u = (case users_coll db u of None \<Rightarrow> [] | Some d \<Rightarrow> orEmpty (blockedUsers d))"

section \<open>Concrete stores and pages\<close>

text \<open>
  Two users, alice and bob, in the situations the properties below are tried on.
  \<open>userDoc c p b\<close> is a user document with the three arrays present.
\<close>

definition userDoc :: "uid list \<Rightarrow> uid list \<Rightarrow> uid list \<Rightarrow> user_doc" where
  "userDoc c p b = \<lparr>connections = Some c, pendingConnections = Some p, blockedUsers = Some b\<rparr>"

definition helloFromBob :: message_doc where
  "helloFromBob = \<lparr>senderId = ''bob'', receiverId = ''alice'', msgText = [104, 105],
     timestamp = 1, seen = False, reactions = [], isDeleted = False, edited = False\<rparr>"

text \<open>Alice has the conversation with bob open and has typed \<^verbatim>\<open>" yo "\<close>.\<close>

definition alicePage :: page_state where
  "alicePage = \<lparr>currentUser = Some ''alice'', selectedUser = Some ''bob'', messages = [],
     newMessage = [32, 121, 111, 32], editingMessageId = None, editingMessageText = [],
     isBlocked = False, isBlockedByThem = False, isReported = False, loading = False\<rparr>"

text \<open>Alice and bob as registration leaves them: no relationship array written yet.\<close>

definition dbStrangers :: firestore where
  "dbStrangers =
     \<lparr>users_coll =
        [''alice'' \<mapsto> \<lparr>connections = None, pendingConnections = None, blockedUsers = None\<rparr>,
         ''bob'' \<mapsto> \<lparr>connections = None, pendingConnections = None, blockedUsers = None\<rparr>],
      messages_coll = Map.empty, unreadable = {}, serverTime = 0\<rparr>"

text \<open>Alice and bob are connected, and bob has written to alice.\<close>

definition dbConnected :: firestore where
  "dbConnected =
     \<lparr>users_coll = [''alice'' \<mapsto> userDoc [''bob''] [] [],
                    ''bob'' \<mapsto> userDoc [''alice''] [] []],
      messages_coll = [''m1'' \<mapsto> helloFromBob],
      unreadable = {}, serverTime = 2\<rparr>"

text \<open>Bob has blocked alice, and bob's document cannot be read.\<close>

definition dbBobBlocksUnreadable :: firestore where
  "dbBobBlocksUnreadable =
     \<lparr>users_coll = [''alice'' \<mapsto> userDoc [''bob''] [] [],
                    ''bob'' \<mapsto> userDoc [''alice''] [] [''alice'']],
      messages_coll = [''m1'' \<mapsto> helloFromBob],
      unreadable = {''bob''}, serverTime = 2\<rparr>"

text \<open>The same store with every document readable.\<close>

definition dbBobBlocks :: firestore where
  "dbBobBlocks = dbBobBlocksUnreadable\<lparr>unreadable := {}\<rparr>"

text \<open>Bob, freshly registered, has asked alice to connect.\<close>

definition dbBobAsks :: firestore where
  "dbBobAsks =
     \<lparr>users_coll =
        [''alice'' \<mapsto> userDoc [] [''bob''] [],
         ''bob'' \<mapsto> \<lparr>connections = None, pendingConnections = None, blockedUsers = None\<rparr>],
      messages_coll = [''m1'' \<mapsto> helloFromBob],
      unreadable = {}, serverTime = 2\<rparr>"

text \<open>Alice has blocked bob while bob's request to her is pending.\<close>

definition dbAliceBlocksPending :: firestore where
  "dbAliceBlocksPending =
     \<lparr>users_coll =
        [''alice'' \<mapsto> userDoc [] [''bob''] [''bob''],
         ''bob'' \<mapsto> \<lparr>connections = None, pendingConnections = None, blockedUsers = None\<rparr>],
      messages_coll = [''m1'' \<mapsto> helloFromBob],
      unreadable = {}, serverTime = 2\<rparr>"

text \<open>
  Three users: bob is connected to alice and has blocked her, and alice's request to
  carol is pending.
\<close>

definition dbThree :: firestore where
  "dbThree =
     \<lparr>users_coll = [''alice'' \<mapsto> userDoc [''bob''] [] [],
                    ''bob'' \<mapsto> userDoc [''alice''] [] [''alice''],
                    ''carol'' \<mapsto> userDoc [] [''alice''] []],
      messages_coll = [''m1'' \<mapsto> helloFromBob],
      unreadable = {}, serverTime = 2\<rparr>"

section \<open>Properties of the store operations and of the block check\<close>

lemma isUserBlocked_iff:
  "isUserBlocked db a b \<longleftrightarrow> a \<notin> unreadable db \<and> storedBlock db a b"
  by (simp add: isUserBlocked_def getDoc_def storedBlock_def split: option.splits)

lemma checkMutualBlockStatus_blocked:
  assumes "(storedBlock db me other \<and> me \<notin> unreadable db)
         \<or> (storedBlock db other me \<and> other \<notin> unreadable db)"
  shows "user1BlocksUser2 (checkMutualBlockStatus db me other)
       \<or> user2BlocksUser1 (checkMutualBlockStatus db me other)"
  using assms by (auto simp: checkMutualBlockStatus_def isUserBlocked_iff)

lemma batchSeen_Fulfilled:
  "list_all (\<lambda>i. messages_coll db i \<noteq> None) ids \<Longrightarrow>
   batchSeen ids db = Fulfilled (db\<lparr>messages_coll :=
             (\<lambda>i. if i \<in> set ids then map_option (\<lambda>m. m\<lparr>seen := True\<rparr>) (messages_coll db i)
                  else messages_coll db i)\<rparr>)"
  by (simp add: batchSeen_def)

lemma set_arrayUnion: "set (orEmpty (arrayUnion x f)) = insert x (set (orEmpty f))"
  by (auto simp: arrayUnion_def orEmpty_def Let_def split: option.splits)

lemma set_arrayRemove: "set (orEmpty (arrayRemove x f)) = set (orEmpty f) - {x}"
  by (auto simp: arrayRemove_def orEmpty_def split: option.splits)

lemma visibleMessages_Nil: "messages p = [] \<Longrightarrow> visibleMessages p = []"
  by (simp add: visibleMessages_def messagesArea_def)

text \<open>What \<^verbatim>\<open>trim\<close> returns neither starts nor ends with white space.\<close>

lemma last_dropWhile: "dropWhile P xs \<noteq> [] \<Longrightarrow> last (dropWhile P xs) = last xs"
  by (induction xs) (auto split: if_splits)

lemma trim_ends:
  assumes "trim s \<noteq> []"
  shows "\<not> isWhiteSpace (hd (trim s)) \<and> \<not> isWhiteSpace (last (trim s))"
proof -
  let ?t = "dropWhile isWhiteSpace s"
  let ?u = "dropWhile isWhiteSpace (rev ?t)"
  have u: "?u \<noteq> []" using assms by (simp add: trim_def)
  have "?u = []" if "?t = []" unfolding that by simp
  with u have t: "?t \<noteq> []" by blast
  have "\<not> isWhiteSpace (hd ?u)" using u by (rule hd_dropWhile)
  moreover have "last ?u = hd ?t"
    using last_dropWhile [OF u] t by (simp add: last_rev)
  moreover have "\<not> isWhiteSpace (hd ?t)" using t by (rule hd_dropWhile)
  ultimately show ?thesis
    using u by (simp add: trim_def hd_rev last_rev)
qed

lemma alerts_distinct: "blockedByThemAlert \<noteq> blockedByMeAlert"
  by (simp add: blockedByThemAlert_def blockedByMeAlert_def)

lemma handleAddFriend_exists:
  assumes "users_coll db other = Some d"
  shows "handleAddFriend (Some me) other db =
    (Completed, db\<lparr>users_coll := (users_coll db)(other \<mapsto>
        d\<lparr>pendingConnections := arrayUnion me (pendingConnections d)\<rparr>)\<rparr>)"
  using assms by (simp add: handleAddFriend_def updateDoc_def)

lemma handleAcceptConnection_exists:
  assumes "users_coll db me = Some dm" and "users_coll db other = Some d"
  shows "fst (handleAcceptConnection (Some me) other db) = Snackbar ''Connection request accepted!''
    \<and> other \<in> set (connectionsOf (snd (handleAcceptConnection (Some me) other db)) me)
    \<and> me \<in> set (connectionsOf (snd (handleAcceptConnection (Some me) other db)) other)
    \<and> other \<notin> set (pendingOf (snd (handleAcceptConnection (Some me) other db)) me)"
  using assms
  by (cases "me = other")
     (simp_all add: handleAcceptConnection_def updateDoc_def connectionsOf_def pendingOf_def
        set_arrayUnion set_arrayRemove)

lemma statusButtons_connected:
  "me \<in> set (connectionsOf db u) \<Longrightarrow>
   map_option (statusButtons me) (users_coll db u) = Some ShowConnected"
  by (cases "users_coll db u") (simp_all add: connectionsOf_def statusButtons_def)

section \<open>Message visibility under a block\<close>

text \<open>
  Claim C1, as the code has it. When a snapshot is delivered and either user's stored
  \<open>blockedUsers\<close> lists the other, and the document holding that list can be read,
  the callback clears the message list: nothing is visible, whatever the snapshot and
  the store hold, and nothing is written.
\<close>

theorem onSnapshot_blocked_hides_messages:
  assumes cu: "currentUser p = Some me" and su: "selectedUser p = Some other"
    and blocked: "(storedBlock db me other \<and> me \<notin> unreadable db)
                \<or> (storedBlock db other me \<and> other \<notin> unreadable db)"
  shows "messages (fst (onSnapshotCallback snapshot p db)) = []
       \<and> visibleMessages (fst (onSnapshotCallback snapshot p db)) = []
       \<and> snd (onSnapshotCallback snapshot p db) = db"
proof -
  have "onSnapshotCallback snapshot p db = (p\<lparr>messages := []\<rparr>, db)"
    using cu su checkMutualBlockStatus_blocked [OF blocked]
    by (auto simp: onSnapshotCallback_def Let_def)
  then show ?thesis
    by (simp add: visibleMessages_Nil)
qed

theorem onSnapshot_blocked_hides_messages_witness:
  "currentUser alicePage = Some ''alice'' \<and> selectedUser alicePage = Some ''bob''
   \<and> storedBlock dbBobBlocks ''bob'' ''alice'' \<and> ''bob'' \<notin> unreadable dbBobBlocks
   \<and> visibleMessages (fst (onSnapshotCallback [(''m1'', helloFromBob)] alicePage dbBobBlocks)) = []
   \<and> snd (onSnapshotCallback [(''m1'', helloFromBob)] alicePage dbBobBlocks) = dbBobBlocks"
proof -
  have cu: "currentUser alicePage = Some ''alice''" and su: "selectedUser alicePage = Some ''bob''"
    by (simp_all add: alicePage_def)
  have b: "storedBlock dbBobBlocks ''bob'' ''alice'' \<and> ''bob'' \<notin> unreadable dbBobBlocks"
    by (simp add: storedBlock_def isUserBlocked_def getDoc_def orEmpty_def checkMutualBlockStatus_def dbBobBlocks_def dbBobBlocksUnreadable_def userDoc_def)
  then have h: "(storedBlock dbBobBlocks ''alice'' ''bob'' \<and> ''alice'' \<notin> unreadable dbBobBlocks)
              \<or> (storedBlock dbBobBlocks ''bob'' ''alice'' \<and> ''bob'' \<notin> unreadable dbBobBlocks)"
    by simp
  show ?thesis
    using onSnapshot_blocked_hides_messages [OF cu su h, of "[(''m1'', helloFromBob)]"] cu su b
    by simp
qed

text \<open>
  Claim C1 as stated fails when the blocker's document cannot be read: bob's stored
  \<open>blockedUsers\<close> lists alice, yet alice's page, with its block flags freshly derived
  from the same store, shows bob's message.
\<close>

theorem onSnapshot_unreadable_blocker_counterexample:
  "storedBlock dbBobBlocksUnreadable ''bob'' ''alice''
   \<and> visibleMessages
        (fst (onSnapshotCallback [(''m1'', helloFromBob)]
                (updateBlockStatus alicePage dbBobBlocksUnreadable) dbBobBlocksUnreadable))
      = [(''m1'', helloFromBob)]"
  by (simp add: storedBlock_def isUserBlocked_def getDoc_def orEmpty_def checkMutualBlockStatus_def dbBobBlocksUnreadable_def userDoc_def
      onSnapshotCallback_def updateBlockStatus_def alicePage_def
      batchSeen_def helloFromBob_def visibleMessages_def messagesArea_def)

section \<open>Sending a message\<close>

text \<open>
  Claim C2, as the code has it. With a conversation open, \<^verbatim>\<open>handleSendMessage\<close>
  \<^item> returns without a write when the typed text is empty after trimming;
  \<^item> otherwise shows the blocked-by-them alert, without a write, when the other user's
    readable record lists the current user as blocked;
  \<^item> otherwise shows the blocked-by-me alert, a different text, without a write, when
    the current user's readable record lists the other user;
  \<^item> and when neither block is found, writes one message whose text is the trimmed
    input, which neither starts nor ends with white space.

  The store changes only when the text is not blank and no block was found.
\<close>

theorem handleSendMessage_gating:
  assumes cu: "currentUser p = Some me" and su: "selectedUser p = Some other"
  shows "(trim (newMessage p) = [] \<longrightarrow> handleSendMessage autoId p db = (Returned, p, db))
    \<and> (trim (newMessage p) \<noteq> [] \<and> storedBlock db other me \<and> other \<notin> unreadable db \<longrightarrow>
         handleSendMessage autoId p db = (Alert blockedByThemAlert, p, db))
    \<and> (trim (newMessage p) \<noteq> [] \<and> storedBlock db me other \<and> me \<notin> unreadable db
         \<and> \<not> (storedBlock db other me \<and> other \<notin> unreadable db) \<longrightarrow>
         handleSendMessage autoId p db = (Alert blockedByMeAlert, p, db))
    \<and> blockedByThemAlert \<noteq> blockedByMeAlert
    \<and> (trim (newMessage p) \<noteq> [] \<and> \<not> isUserBlocked db me other \<and> \<not> isUserBlocked db other me \<longrightarrow>
         handleSendMessage autoId p db =
           (Completed, p\<lparr>newMessage := []\<rparr>,
            db\<lparr>messages_coll := (messages_coll db)(autoId \<mapsto>
                 \<lparr>senderId = me, receiverId = other, msgText = trim (newMessage p),
                  timestamp = serverTime db, seen = False, reactions = [],
                  isDeleted = False, edited = False\<rparr>)\<rparr>)
         \<and> \<not> isWhiteSpace (hd (trim (newMessage p)))
         \<and> \<not> isWhiteSpace (last (trim (newMessage p))))
    \<and> (snd (snd (handleSendMessage autoId p db)) \<noteq> db \<longrightarrow>
         trim (newMessage p) \<noteq> [] \<and> \<not> isUserBlocked db me other \<and> \<not> isUserBlocked db other me)"
  using cu su alerts_distinct trim_ends [of "newMessage p"]
  by (auto simp: handleSendMessage_def checkMutualBlockStatus_def isUserBlocked_iff addDoc_def Let_def)

text \<open>
  Alice's \<^verbatim>\<open>" yo "\<close> is refused with one alert when bob blocks her and with the
  other when she blocks bob; a blank text returns silently; between connected users
  the message \<^verbatim>\<open>"yo"\<close> is written.
\<close>

theorem handleSendMessage_gating_witness:
  "currentUser alicePage = Some ''alice'' \<and> selectedUser alicePage = Some ''bob''
   \<and> trim (newMessage alicePage) = [121, 111]
   \<and> storedBlock dbBobBlocks ''bob'' ''alice'' \<and> ''bob'' \<notin> unreadable dbBobBlocks
   \<and> handleSendMessage ''m2'' alicePage dbBobBlocks = (Alert blockedByThemAlert, alicePage, dbBobBlocks)
   \<and> storedBlock dbAliceBlocksPending ''alice'' ''bob'' \<and> ''alice'' \<notin> unreadable dbAliceBlocksPending
   \<and> \<not> storedBlock dbAliceBlocksPending ''bob'' ''alice''
   \<and> handleSendMessage ''m2'' alicePage dbAliceBlocksPending
       = (Alert blockedByMeAlert, alicePage, dbAliceBlocksPending)
   \<and> trim (newMessage (alicePage\<lparr>newMessage := [32, 9, 10]\<rparr>)) = []
   \<and> handleSendMessage ''m2'' (alicePage\<lparr>newMessage := [32, 9, 10]\<rparr>) dbConnected
       = (Returned, alicePage\<lparr>newMessage := [32, 9, 10]\<rparr>, dbConnected)
   \<and> \<not> isUserBlocked dbConnected ''alice'' ''bob'' \<and> \<not> isUserBlocked dbConnected ''bob'' ''alice''
   \<and> messages_coll (snd (snd (handleSendMessage ''m2'' alicePage dbConnected))) ''m2''
       = Some \<lparr>senderId = ''alice'', receiverId = ''bob'', msgText = [121, 111],
               timestamp = 2, seen = False, reactions = [], isDeleted = False, edited = False\<rparr>"
proof -
  have cu: "currentUser alicePage = Some ''alice''" and su: "selectedUser alicePage = Some ''bob''"
    by (simp_all add: alicePage_def)
  have cu': "currentUser (alicePage\<lparr>newMessage := [32, 9, 10]\<rparr>) = Some ''alice''"
    and su': "selectedUser (alicePage\<lparr>newMessage := [32, 9, 10]\<rparr>) = Some ''bob''"
    by (simp_all add: alicePage_def)
  have t: "trim (newMessage alicePage) = [121, 111]"
    by (simp add: trim_def alicePage_def isWhiteSpace_def)
  have t': "trim (newMessage (alicePage\<lparr>newMessage := [32, 9, 10]\<rparr>)) = []"
    by (simp add: trim_def isWhiteSpace_def)
  have b1: "storedBlock dbBobBlocks ''bob'' ''alice'' \<and> ''bob'' \<notin> unreadable dbBobBlocks"
    by (simp add: storedBlock_def isUserBlocked_def getDoc_def orEmpty_def
        checkMutualBlockStatus_def dbBobBlocks_def dbBobBlocksUnreadable_def userDoc_def)
  have b2: "storedBlock dbAliceBlocksPending ''alice'' ''bob''
            \<and> ''alice'' \<notin> unreadable dbAliceBlocksPending
            \<and> \<not> storedBlock dbAliceBlocksPending ''bob'' ''alice''"
    by (simp add: storedBlock_def isUserBlocked_def getDoc_def orEmpty_def
        checkMutualBlockStatus_def dbAliceBlocksPending_def userDoc_def)
  have b3: "\<not> isUserBlocked dbConnected ''alice'' ''bob'' \<and> \<not> isUserBlocked dbConnected ''bob'' ''alice''"
    by (simp add: storedBlock_def isUserBlocked_def getDoc_def orEmpty_def
        checkMutualBlockStatus_def dbConnected_def userDoc_def)
  have sv: "serverTime dbConnected = 2"
    by (simp add: dbConnected_def)
  have r1: "handleSendMessage ''m2'' alicePage dbBobBlocks
       = (Alert blockedByThemAlert, alicePage, dbBobBlocks)"
    using handleSendMessage_gating [OF cu su, of "''m2''" dbBobBlocks] t b1 by simp
  have r2: "handleSendMessage ''m2'' alicePage dbAliceBlocksPending
       = (Alert blockedByMeAlert, alicePage, dbAliceBlocksPending)"
    using handleSendMessage_gating [OF cu su, of "''m2''" dbAliceBlocksPending] t b2 by simp
  have r3: "handleSendMessage ''m2'' (alicePage\<lparr>newMessage := [32, 9, 10]\<rparr>) dbConnected
       = (Returned, alicePage\<lparr>newMessage := [32, 9, 10]\<rparr>, dbConnected)"
    using handleSendMessage_gating [OF cu' su', of "''m2''" dbConnected] t' by blast
  have r4: "messages_coll (snd (snd (handleSendMessage ''m2'' alicePage dbConnected))) ''m2''
       = Some \<lparr>senderId = ''alice'', receiverId = ''bob'', msgText = [121, 111],
               timestamp = 2, seen = False, reactions = [], isDeleted = False, edited = False\<rparr>"
    using handleSendMessage_gating [OF cu su, of "''m2''" dbConnected] t b3 sv by simp
  show ?thesis
    using cu su t t' b1 b2 b3 r1 r2 r3 r4 by simp
qed

text \<open>
  Claim C2 as stated fails when the blocker's document cannot be read: bob's stored
  \<open>blockedUsers\<close> lists alice, and alice's message is written all the same.
\<close>

theorem handleSendMessage_unreadable_blocker_counterexample:
  "storedBlock dbBobBlocksUnreadable ''bob'' ''alice''
   \<and> fst (handleSendMessage ''m2'' alicePage dbBobBlocksUnreadable) = Completed
   \<and> messages_coll (snd (snd (handleSendMessage ''m2'' alicePage dbBobBlocksUnreadable))) ''m2''
       = Some \<lparr>senderId = ''alice'', receiverId = ''bob'', msgText = [121, 111],
               timestamp = 2, seen = False, reactions = [], isDeleted = False, edited = False\<rparr>"
  by (simp add: storedBlock_def isUserBlocked_def getDoc_def orEmpty_def
        checkMutualBlockStatus_def dbBobBlocksUnreadable_def userDoc_def alicePage_def
      handleSendMessage_def trim_def isWhiteSpace_def addDoc_def)

section \<open>Blocking and the pending request\<close>

text \<open>
  Claim C3, as the code has it. On the messages page the blocked banner comes before
  every other state of the messages area. When the current user's readable record
  lists the selected user as blocked, the page that has derived its block flags shows
  the banner (the blocked-by-me text unless the other user is found to block as well)
  and no message, whatever the stored pending requests, the loading flag and the
  message list are; and a block that has just gone through leaves the page with the
  banner and the store with the block. The browse page decides its buttons without
  the \<open>blockedUsers\<close> array.
\<close>

theorem blocked_banner_precedence:
  assumes cu: "currentUser p = Some me" and su: "selectedUser p = Some other"
  shows "(storedBlock db me other \<and> me \<notin> unreadable db \<longrightarrow>
           messagesArea (updateBlockStatus p db) =
             BlockedBanner (if isUserBlocked db other me then ''You have been blocked by this user''
                            else ''You have blocked this user'')
           \<and> visibleMessages (updateBlockStatus p db) = [])
       \<and> (fst (handleBlockUser other p db) = Alert ''User blocked successfully.'' \<longrightarrow>
           storedBlock (snd (snd (handleBlockUser other p db))) me other
           \<and> messagesArea (fst (snd (handleBlockUser other p db))) =
               BlockedBanner (if isBlockedByThem p then ''You have been blocked by this user''
                              else ''You have blocked this user'')
           \<and> pendingOf (snd (snd (handleBlockUser other p db))) = pendingOf db)
       \<and> statusButtons u (d\<lparr>blockedUsers := b\<rparr>) = statusButtons u d"
proof -
  have banner: "messagesArea (updateBlockStatus p db) =
             BlockedBanner (if isUserBlocked db other me then ''You have been blocked by this user''
                            else ''You have blocked this user'')
           \<and> visibleMessages (updateBlockStatus p db) = []"
    if "storedBlock db me other" "me \<notin> unreadable db"
    using cu su that
    by (simp add: messagesArea_def visibleMessages_def updateBlockStatus_def
        checkMutualBlockStatus_def isUserBlocked_iff)
  have block: "storedBlock (snd (snd (handleBlockUser other p db))) me other
           \<and> messagesArea (fst (snd (handleBlockUser other p db))) =
               BlockedBanner (if isBlockedByThem p then ''You have been blocked by this user''
                              else ''You have blocked this user'')
           \<and> pendingOf (snd (snd (handleBlockUser other p db))) = pendingOf db"
    if ok: "fst (handleBlockUser other p db) = Alert ''User blocked successfully.''"
  proof (cases "getDoc db me")
    case Rejected
    with cu ok show ?thesis by (simp add: handleBlockUser_def)
  next
    case (Fulfilled r)
    show ?thesis
    proof (cases r)
      case None
      with cu ok Fulfilled show ?thesis by (simp add: handleBlockUser_def)
    next
      case (Some ud)
      with Fulfilled have ex: "users_coll db me = Some ud"
        by (simp add: getDoc_def split: if_splits)
      show ?thesis
      proof (cases "other \<in> set (orEmpty (blockedUsers ud))")
        case True
        with cu ok Fulfilled Some show ?thesis by (simp add: handleBlockUser_def)
      next
        case False
        with cu su Fulfilled Some ex show ?thesis
          by (simp add: handleBlockUser_def updateDoc_def storedBlock_def orEmpty_def
              messagesArea_def pendingOf_def fun_eq_iff)
      qed
    qed
  qed
  show ?thesis
    using banner block by (simp add: statusButtons_def)
qed

text \<open>
  Bob's request to alice is pending. Alice's blocking him goes through, leaves the
  request pending and her page with the banner saying that she has blocked him; and
  with the block stored, her page shows that banner once it has derived its flags,
  even while it is loading.
\<close>

theorem blocked_banner_precedence_witness:
  "currentUser (alicePage\<lparr>loading := True\<rparr>) = Some ''alice''
   \<and> selectedUser (alicePage\<lparr>loading := True\<rparr>) = Some ''bob''
   \<and> ''bob'' \<in> set (pendingOf dbBobAsks ''alice'')
   \<and> fst (handleBlockUser ''bob'' (alicePage\<lparr>loading := True\<rparr>) dbBobAsks)
       = Alert ''User blocked successfully.''
   \<and> storedBlock (snd (snd (handleBlockUser ''bob'' (alicePage\<lparr>loading := True\<rparr>) dbBobAsks)))
        ''alice'' ''bob''
   \<and> messagesArea (fst (snd (handleBlockUser ''bob'' (alicePage\<lparr>loading := True\<rparr>) dbBobAsks)))
       = BlockedBanner ''You have blocked this user''
   \<and> storedBlock dbAliceBlocksPending ''alice'' ''bob''
   \<and> ''alice'' \<notin> unreadable dbAliceBlocksPending
   \<and> ''bob'' \<in> set (pendingOf dbAliceBlocksPending ''alice'')
   \<and> messagesArea (updateBlockStatus (alicePage\<lparr>loading := True\<rparr>) dbAliceBlocksPending)
       = BlockedBanner ''You have blocked this user''"
proof -
  let ?p = "alicePage\<lparr>loading := True\<rparr>"
  have cu: "currentUser ?p = Some ''alice''" and su: "selectedUser ?p = Some ''bob''"
    and nt: "\<not> isBlockedByThem ?p"
    by (simp_all add: alicePage_def)
  have b: "storedBlock dbAliceBlocksPending ''alice'' ''bob''"
    and r: "''alice'' \<notin> unreadable dbAliceBlocksPending"
    and nb: "\<not> isUserBlocked dbAliceBlocksPending ''bob'' ''alice''"
    and d: "''bob'' \<in> set (pendingOf dbAliceBlocksPending ''alice'')"
    by (simp_all add: storedBlock_def isUserBlocked_def getDoc_def orEmpty_def
        dbAliceBlocksPending_def userDoc_def pendingOf_def)
  have d0: "''bob'' \<in> set (pendingOf dbBobAsks ''alice'')"
    by (simp add: dbBobAsks_def userDoc_def pendingOf_def orEmpty_def)
  have ok: "fst (handleBlockUser ''bob'' ?p dbBobAsks) = Alert ''User blocked successfully.''"
    by (simp add: handleBlockUser_def getDoc_def updateDoc_def orEmpty_def dbBobAsks_def
        userDoc_def alicePage_def Let_def)
  have m1: "messagesArea (updateBlockStatus ?p dbAliceBlocksPending)
       = BlockedBanner ''You have blocked this user''"
    using blocked_banner_precedence [OF cu su, where db = dbAliceBlocksPending
        and u = "''alice''" and d = "userDoc [] [] []" and b = None]
      b r nb
    by (elim conjE) simp
  have m2: "storedBlock (snd (snd (handleBlockUser ''bob'' ?p dbBobAsks))) ''alice'' ''bob''
      \<and> messagesArea (fst (snd (handleBlockUser ''bob'' ?p dbBobAsks)))
       = BlockedBanner ''You have blocked this user''"
    using blocked_banner_precedence [OF cu su, where db = dbBobAsks
        and u = "''alice''" and d = "userDoc [] [] []" and b = None]
      ok nt
    by (elim conjE) simp
  show ?thesis
    using cu su d0 ok m2 b r d m1 by (intro conjI) (elim conjE, assumption)+
qed

text \<open>
  Claim C3 as stated fails on the browse page and behind an unreadable record. Alice
  has blocked bob and bob's request to her is pending: bob's card on alice's browse
  page shows the plain Connect button, and when alice's own record cannot be read her
  messages page shows no banner.
\<close>

theorem statusButtons_ignores_block_counterexample:
  "storedBlock dbAliceBlocksPending ''alice'' ''bob''
   \<and> ''bob'' \<in> set (pendingOf dbAliceBlocksPending ''alice'')
   \<and> map_option (statusButtons ''alice'') (users_coll dbAliceBlocksPending ''bob'') = Some ShowConnect
   \<and> storedBlock (dbAliceBlocksPending\<lparr>unreadable := {''alice''}\<rparr>) ''alice'' ''bob''
   \<and> messagesArea (updateBlockStatus alicePage (dbAliceBlocksPending\<lparr>unreadable := {''alice''}\<rparr>))
       = NoMessagesYet"
  by (simp add: storedBlock_def isUserBlocked_def getDoc_def orEmpty_def
        checkMutualBlockStatus_def dbAliceBlocksPending_def userDoc_def alicePage_def
      statusButtons_def pendingOf_def updateBlockStatus_def messagesArea_def)

section \<open>Request and accept\<close>

text \<open>
  Claim C4. For two users \<open>a\<close> and \<open>b\<close> whose records exist, \<open>a\<close>'s request to
  \<open>b\<close> followed by \<open>b\<close>'s accepting it completes both times, puts \<open>a\<close> into \<open>b\<close>'s
  pending requests in between, and ends with each in the other's connections, \<open>a\<close>
  no longer pending at \<open>b\<close>, and each shown as connected on the other's browse page.
\<close>

theorem request_then_accept_connects:
  assumes ea: "users_coll db a \<noteq> None" and eb: "users_coll db b \<noteq> None"
    and send: "handleAddFriend (Some a) b db = (o1, db1)"
    and accept: "handleAcceptConnection (Some b) a db1 = (o2, db2)"
  shows "o1 = Completed \<and> a \<in> set (pendingOf db1 b)
       \<and> o2 = Snackbar ''Connection request accepted!''
       \<and> b \<in> set (connectionsOf db2 a) \<and> a \<in> set (connectionsOf db2 b)
       \<and> a \<notin> set (pendingOf db2 b)
       \<and> map_option (statusButtons a) (users_coll db2 b) = Some ShowConnected
       \<and> map_option (statusButtons b) (users_coll db2 a) = Some ShowConnected"
proof -
  from ea eb obtain da dbb where da: "users_coll db a = Some da" and dbb: "users_coll db b = Some dbb"
    by auto
  have s1: "o1 = Completed
      \<and> db1 = db\<lparr>users_coll := (users_coll db)(b \<mapsto>
          dbb\<lparr>pendingConnections := arrayUnion a (pendingConnections dbb)\<rparr>)\<rparr>"
    using handleAddFriend_exists [OF dbb, of a] send by simp
  then have p1: "a \<in> set (pendingOf db1 b)"
    by (simp add: pendingOf_def set_arrayUnion)
  from s1 da obtain da1 db1b where e1: "users_coll db1 b = Some db1b" "users_coll db1 a = Some da1"
    by (cases "a = b") auto
  have s2: "o2 = Snackbar ''Connection request accepted!''
      \<and> a \<in> set (connectionsOf db2 b) \<and> b \<in> set (connectionsOf db2 a)
      \<and> a \<notin> set (pendingOf db2 b)"
    using handleAcceptConnection_exists [OF e1] accept by simp
  then have "map_option (statusButtons a) (users_coll db2 b) = Some ShowConnected"
    and "map_option (statusButtons b) (users_coll db2 a) = Some ShowConnected"
    by (simp_all add: statusButtons_connected)
  with s1 p1 s2 show ?thesis by simp
qed

text \<open>Alice asks bob, bob accepts, starting from two freshly registered users.\<close>

theorem request_then_accept_connects_witness:
  "users_coll dbStrangers ''alice'' \<noteq> None \<and> users_coll dbStrangers ''bob'' \<noteq> None
   \<and> pendingOf dbStrangers ''bob'' = [] \<and> connectionsOf dbStrangers ''alice'' = []
   \<and> connectionsOf dbStrangers ''bob'' = []
   \<and> ''alice'' \<in> set (pendingOf (snd (handleAddFriend (Some ''alice'') ''bob'' dbStrangers)) ''bob'')
   \<and> ''bob'' \<in> set (connectionsOf
        (snd (handleAcceptConnection (Some ''bob'') ''alice''
               (snd (handleAddFriend (Some ''alice'') ''bob'' dbStrangers)))) ''alice'')
   \<and> ''alice'' \<in> set (connectionsOf
        (snd (handleAcceptConnection (Some ''bob'') ''alice''
               (snd (handleAddFriend (Some ''alice'') ''bob'' dbStrangers)))) ''bob'')
   \<and> ''alice'' \<notin> set (pendingOf
        (snd (handleAcceptConnection (Some ''bob'') ''alice''
               (snd (handleAddFriend (Some ''alice'') ''bob'' dbStrangers)))) ''bob'')"
proof -
  have ea: "users_coll dbStrangers ''alice'' \<noteq> None" and eb: "users_coll dbStrangers ''bob'' \<noteq> None"
    by (simp_all add: dbStrangers_def)
  have st: "pendingOf dbStrangers ''bob'' = [] \<and> connectionsOf dbStrangers ''alice'' = []
      \<and> connectionsOf dbStrangers ''bob'' = []"
    by (simp add: dbStrangers_def pendingOf_def connectionsOf_def orEmpty_def)
  show ?thesis
    using request_then_accept_connects [OF ea eb surjective_pairing surjective_pairing] ea eb st
    by simp
qed

section \<open>Sending a connection request\<close>

text \<open>
  Claim C5, as the code has it. \<^verbatim>\<open>handleAddFriend\<close> checks no relationship
  state. Whenever the other user's record exists it completes silently and its effect
  is exactly to add the current user to that record's \<open>pendingConnections\<close>: the
  connections and blocked lists of everybody and the records of all other users stay
  as they were. The browse page offers the Connect button on a card exactly when the
  current user is in neither the connections nor the pending requests of the shown
  profile.
\<close>

theorem handleAddFriend_effect:
  assumes ex: "users_coll db other = Some d"
  shows "handleAddFriend (Some me) other db =
           (Completed, db\<lparr>users_coll := (users_coll db)(other \<mapsto>
               d\<lparr>pendingConnections := arrayUnion me (pendingConnections d)\<rparr>)\<rparr>)
    \<and> set (pendingOf (snd (handleAddFriend (Some me) other db)) other)
        = insert me (set (pendingOf db other))
    \<and> connectionsOf (snd (handleAddFriend (Some me) other db)) = connectionsOf db
    \<and> blockedOf (snd (handleAddFriend (Some me) other db)) = blockedOf db
    \<and> (\<forall>u. u \<noteq> other \<longrightarrow>
          users_coll (snd (handleAddFriend (Some me) other db)) u = users_coll db u)
    \<and> (statusButtons me d = ShowConnect \<longleftrightarrow>
          me \<notin> set (orEmpty (connections d)) \<and> me \<notin> set (orEmpty (pendingConnections d)))"
  using ex
  by (auto simp: handleAddFriend_exists pendingOf_def connectionsOf_def blockedOf_def
      set_arrayUnion statusButtons_def fun_eq_iff)

text \<open>
  Alice and bob are strangers: bob's card offers alice the Connect button, and her
  request adds her to bob's pending requests and leaves her own record alone.
\<close>

theorem handleAddFriend_effect_witness:
  "users_coll dbStrangers ''bob''
     = Some \<lparr>connections = None, pendingConnections = None, blockedUsers = None\<rparr>
   \<and> ''alice'' \<noteq> ''bob''
   \<and> set (pendingOf (snd (handleAddFriend (Some ''alice'') ''bob'' dbStrangers)) ''bob'')
       = insert ''alice'' (set (pendingOf dbStrangers ''bob''))
   \<and> users_coll (snd (handleAddFriend (Some ''alice'') ''bob'' dbStrangers)) ''alice''
       = users_coll dbStrangers ''alice''
   \<and> statusButtons ''alice'' \<lparr>connections = None, pendingConnections = None, blockedUsers = None\<rparr>
       = ShowConnect"
proof -
  let ?d = "\<lparr>connections = None, pendingConnections = None, blockedUsers = None\<rparr>"
  have ex: "users_coll dbStrangers ''bob'' = Some ?d"
    by (simp add: dbStrangers_def)
  have ne: "''alice'' \<noteq> ''bob''" by simp
  have pe: "''alice'' \<notin> set (orEmpty (connections ?d))
            \<and> ''alice'' \<notin> set (orEmpty (pendingConnections ?d))"
    by (simp add: orEmpty_def)
  note eff = handleAddFriend_effect [OF ex, of "''alice''"]
  have a: "set (pendingOf (snd (handleAddFriend (Some ''alice'') ''bob'' dbStrangers)) ''bob'')
       = insert ''alice'' (set (pendingOf dbStrangers ''bob''))"
    using eff by (elim conjE)
  have b: "users_coll (snd (handleAddFriend (Some ''alice'') ''bob'' dbStrangers)) ''alice''
       = users_coll dbStrangers ''alice''"
    using eff ne by (elim conjE) simp
  have c: "statusButtons ''alice'' ?d = ShowConnect"
    using eff pe by (elim conjE) simp
  show ?thesis
    using ex ne a b c by (intro conjI)
qed

text \<open>
  Claim C5 as stated fails outside the stranger state. Alice has blocked bob and bob's
  request to her is pending; bob's card still offers her the Connect button, and the
  handler completes without any message and adds her to bob's pending requests.
\<close>

theorem handleAddFriend_unchecked_counterexample:
  "storedBlock dbAliceBlocksPending ''alice'' ''bob''
   \<and> ''bob'' \<in> set (pendingOf dbAliceBlocksPending ''alice'')
   \<and> map_option (statusButtons ''alice'') (users_coll dbAliceBlocksPending ''bob'') = Some ShowConnect
   \<and> fst (handleAddFriend (Some ''alice'') ''bob'' dbAliceBlocksPending) = Completed
   \<and> pendingOf dbAliceBlocksPending ''bob'' = []
   \<and> pendingOf (snd (handleAddFriend (Some ''alice'') ''bob'' dbAliceBlocksPending)) ''bob'' = [''alice'']"
  by (simp add: storedBlock_def orEmpty_def dbAliceBlocksPending_def userDoc_def
      statusButtons_def pendingOf_def handleAddFriend_def updateDoc_def arrayUnion_def)

section \<open>Editing and deleting a message\<close>

text \<open>
  Claim C6, as the code has it. The author check lives in the rendering: a bubble
  carries the edit and delete buttons exactly when the message is the current user's
  own, is not deleted and is not being edited, and the edit box is never shown on a
  deleted message. The handlers check neither the author nor the deleted flag: for a
  signed-in user and an existing message, editing sets the text to the new value and
  \<open>edited\<close> to true, and deleting sets \<open>isDeleted\<close> to true and keeps the text;
  every other field and every other message stay as they were.
\<close>

theorem edit_delete_effect_and_guard:
  assumes cu: "currentUser p = Some me" and ex: "messages_coll db i = Some m"
  shows "handleEditMessage i newText p db =
           (Completed, p\<lparr>editingMessageId := None, editingMessageText := []\<rparr>,
            db\<lparr>messages_coll := (messages_coll db)(i \<mapsto> m\<lparr>msgText := newText, edited := True\<rparr>)\<rparr>)
    \<and> handleDeleteMessage i p db =
           (Completed, p, db\<lparr>messages_coll := (messages_coll db)(i \<mapsto> m\<lparr>isDeleted := True\<rparr>)\<rparr>)
    \<and> msgText (m\<lparr>isDeleted := True\<rparr>) = msgText m
    \<and> (renderMessage p (i, m) = TextShown True \<longleftrightarrow>
          senderId m = me \<and> \<not> isDeleted m \<and> editingMessageId p \<noteq> Some i)
    \<and> (renderMessage p (i, m) = EditBox \<longrightarrow> \<not> isDeleted m)"
  using cu ex
  by (simp add: handleEditMessage_def handleDeleteMessage_def updateMessageDoc_def
      renderMessage_def)

text \<open>
  Bob's message in alice's page: no buttons for alice, and the effect the two handlers
  would have on it.
\<close>

theorem edit_delete_effect_and_guard_witness:
  "currentUser alicePage = Some ''alice'' \<and> messages_coll dbConnected ''m1'' = Some helloFromBob
   \<and> senderId helloFromBob \<noteq> ''alice''
   \<and> renderMessage alicePage (''m1'', helloFromBob) \<noteq> TextShown True
   \<and> renderMessage alicePage (''m1'', helloFromBob) \<noteq> EditBox
   \<and> messages_coll (snd (snd (handleDeleteMessage ''m1'' alicePage dbConnected))) ''m1''
       = Some (helloFromBob\<lparr>isDeleted := True\<rparr>)
   \<and> messages_coll (snd (snd (handleEditMessage ''m1'' [111, 107] alicePage dbConnected))) ''m1''
       = Some (helloFromBob\<lparr>msgText := [111, 107], edited := True\<rparr>)"
proof -
  have cu: "currentUser alicePage = Some ''alice''"
    by (simp add: alicePage_def)
  have ex: "messages_coll dbConnected ''m1'' = Some helloFromBob"
    by (simp add: dbConnected_def)
  have ne: "senderId helloFromBob \<noteq> ''alice''"
    by (simp add: helloFromBob_def)
  have nb: "renderMessage alicePage (''m1'', helloFromBob) \<noteq> EditBox"
    by (simp add: renderMessage_def alicePage_def helloFromBob_def)
  note eff = edit_delete_effect_and_guard [OF cu ex]
  have g: "renderMessage alicePage (''m1'', helloFromBob) \<noteq> TextShown True"
    using eff [of "[]"] ne by (elim conjE) simp
  have d: "messages_coll (snd (snd (handleDeleteMessage ''m1'' alicePage dbConnected))) ''m1''
       = Some (helloFromBob\<lparr>isDeleted := True\<rparr>)"
    using eff [of "[]"] by (elim conjE) simp
  have e: "messages_coll (snd (snd (handleEditMessage ''m1'' [111, 107] alicePage dbConnected))) ''m1''
       = Some (helloFromBob\<lparr>msgText := [111, 107], edited := True\<rparr>)"
    using eff [of "[111, 107]"] by (elim conjE) simp
  show ?thesis
    using cu ex ne nb g d e by (intro conjI)
qed

text \<open>
  Claim C6 as stated fails at the handlers: run for alice on bob's message, the edit
  handler rewrites it and the delete handler marks it deleted; and the edit handler
  rewrites a message that is already deleted.
\<close>

theorem handlers_not_author_only_counterexample:
  "currentUser alicePage = Some ''alice''
   \<and> map_option senderId (messages_coll dbConnected ''m1'') = Some ''bob''
   \<and> fst (handleEditMessage ''m1'' [111, 107] alicePage dbConnected) = Completed
   \<and> map_option msgText
        (messages_coll (snd (snd (handleEditMessage ''m1'' [111, 107] alicePage dbConnected))) ''m1'')
       = Some [111, 107]
   \<and> fst (handleDeleteMessage ''m1'' alicePage dbConnected) = Completed
   \<and> map_option isDeleted
        (messages_coll (snd (snd (handleDeleteMessage ''m1'' alicePage dbConnected))) ''m1'')
       = Some True
   \<and> map_option msgText
        (messages_coll
           (snd (snd (handleEditMessage ''m1'' [111, 107] alicePage
                        (snd (snd (handleDeleteMessage ''m1'' alicePage dbConnected)))))) ''m1'')
       = Some [111, 107]"
  by (simp add: alicePage_def dbConnected_def helloFromBob_def
      handleEditMessage_def handleDeleteMessage_def updateMessageDoc_def)

section \<open>Deleting an account\<close>

text \<open>
  Claim C7, as the code has it. Deleting the account, once confirmed, deletes the
  user's own record and nothing else, whatever the authentication service then answers:
  the record of every other user, with its connections, pending requests and blocked
  users, and all messages stay as they were. When the authentication service accepts,
  the page leaves for the landing page; when it refuses, the error banner is set and
  the record is gone all the same. The admin's delete of a user leaves the same store.
  Without the confirmation nothing happens.
\<close>

theorem handleDeleteAccount_deletes_own_record_only:
  shows "fst (handleDeleteAccount True (Fulfilled ()) (Some me) db) = Navigated ''/''
    \<and> fst (handleDeleteAccount True Rejected (Some me) db) = SetError
    \<and> users_coll (snd (handleDeleteAccount True userDelete (Some me) db)) me = None
    \<and> (\<forall>u. u \<noteq> me \<longrightarrow>
          users_coll (snd (handleDeleteAccount True userDelete (Some me) db)) u = users_coll db u)
    \<and> messages_coll (snd (handleDeleteAccount True userDelete (Some me) db)) = messages_coll db
    \<and> snd (handleDeleteUser True me db) = snd (handleDeleteAccount True userDelete (Some me) db)
    \<and> handleDeleteAccount False userDelete (Some me) db = (Returned, db)"
  by (cases userDelete)
     (simp_all add: handleDeleteAccount_def handleDeleteUser_def deleteDoc_def)

text \<open>
  Alice deletes her account and the authentication service refuses: her record is
  gone, and bob's and carol's records are untouched.
\<close>

theorem handleDeleteAccount_deletes_own_record_only_witness:
  "''bob'' \<noteq> ''alice'' \<and> ''carol'' \<noteq> ''alice''
   \<and> fst (handleDeleteAccount True Rejected (Some ''alice'') dbThree) = SetError
   \<and> users_coll (snd (handleDeleteAccount True Rejected (Some ''alice'') dbThree)) ''alice'' = None
   \<and> users_coll (snd (handleDeleteAccount True Rejected (Some ''alice'') dbThree)) ''bob''
       = users_coll dbThree ''bob''
   \<and> users_coll (snd (handleDeleteAccount True Rejected (Some ''alice'') dbThree)) ''carol''
       = users_coll dbThree ''carol''"
proof -
  have nb: "''bob'' \<noteq> ''alice''" and nc: "''carol'' \<noteq> ''alice''"
    by simp_all
  note eff = handleDeleteAccount_deletes_own_record_only [of "''alice''" dbThree Rejected]
  have e: "fst (handleDeleteAccount True Rejected (Some ''alice'') dbThree) = SetError"
    using eff by (elim conjE)
  have a: "users_coll (snd (handleDeleteAccount True Rejected (Some ''alice'') dbThree)) ''alice''
       = None"
    using eff by (elim conjE)
  have b: "users_coll (snd (handleDeleteAccount True Rejected (Some ''alice'') dbThree)) ''bob''
       = users_coll dbThree ''bob''"
    using eff nb by (elim conjE) simp
  have c: "users_coll (snd (handleDeleteAccount True Rejected (Some ''alice'') dbThree)) ''carol''
       = users_coll dbThree ''carol''"
    using eff nc by (elim conjE) simp
  show ?thesis
    using nb nc e a b c by (intro conjI)
qed

text \<open>
  Claim C7 as stated fails: after alice has deleted her account, with the
  authentication service accepting, bob's connections and blocked users and carol's
  pending requests still hold her id; so they do after the admin has deleted her.
\<close>

theorem handleDeleteAccount_no_cascade_counterexample:
  "fst (handleDeleteAccount True (Fulfilled ()) (Some ''alice'') dbThree) = Navigated ''/''
   \<and> users_coll (snd (handleDeleteAccount True (Fulfilled ()) (Some ''alice'') dbThree)) ''alice''
       = None
   \<and> ''alice'' \<in> set (connectionsOf
        (snd (handleDeleteAccount True (Fulfilled ()) (Some ''alice'') dbThree)) ''bob'')
   \<and> ''alice'' \<in> set (blockedOf
        (snd (handleDeleteAccount True (Fulfilled ()) (Some ''alice'') dbThree)) ''bob'')
   \<and> ''alice'' \<in> set (pendingOf
        (snd (handleDeleteAccount True (Fulfilled ()) (Some ''alice'') dbThree)) ''carol'')
   \<and> ''alice'' \<in> set (connectionsOf (snd (handleDeleteUser True ''alice'' dbThree)) ''bob'')"
  by (simp add: dbThree_def userDoc_def handleDeleteAccount_def handleDeleteUser_def deleteDoc_def
      connectionsOf_def blockedOf_def pendingOf_def orEmpty_def)

section \<open>Cancelling, rejecting and unblocking twice\<close>

lemma arrayRemove_idem: "arrayRemove x (arrayRemove x f) = arrayRemove x f"
  by (simp add: arrayRemove_def orEmpty_def)

lemma handleCancelRequest_twice:
  "snd (handleCancelRequest user other (snd (handleCancelRequest user other db)))
     = snd (handleCancelRequest user other db)
   \<and> (fst (handleCancelRequest user other db) = Completed \<longrightarrow>
        fst (handleCancelRequest user other (snd (handleCancelRequest user other db))) = Completed)"
  by (cases user; cases "users_coll db other")
     (simp_all add: handleCancelRequest_def updateDoc_def arrayRemove_idem)

lemma handleRejectConnection_twice:
  "snd (handleRejectConnection user other (snd (handleRejectConnection user other db)))
     = snd (handleRejectConnection user other db)
   \<and> (fst (handleRejectConnection user other db) = Snackbar ''Connection request rejected!'' \<longrightarrow>
        fst (handleRejectConnection user other (snd (handleRejectConnection user other db)))
          = Snackbar ''Connection request rejected!'')"
proof (cases user)
  case None
  then show ?thesis by (simp add: handleRejectConnection_def)
next
  case (Some me)
  then show ?thesis
    by (cases "users_coll db me")
       (simp_all add: handleRejectConnection_def updateDoc_def arrayRemove_idem)
qed

lemma handleUnblockUser_twice:
  "snd (snd (handleUnblockUser other (fst (snd (handleUnblockUser other p db)))
                (snd (snd (handleUnblockUser other p db)))))
     = snd (snd (handleUnblockUser other p db))
   \<and> (fst (handleUnblockUser other p db) = Alert ''User unblocked successfully.'' \<longrightarrow>
        fst (handleUnblockUser other (fst (snd (handleUnblockUser other p db)))
               (snd (snd (handleUnblockUser other p db))))
          = Alert ''User is not blocked.'')"
proof (cases "currentUser p")
  case None
  then show ?thesis by (simp add: handleUnblockUser_def)
next
  case (Some me)
  show ?thesis
  proof (cases "me \<in> unreadable db")
    case True
    with Some show ?thesis by (simp add: handleUnblockUser_def getDoc_def)
  next
    case False
    show ?thesis
    proof (cases "users_coll db me")
      case None
      with Some False show ?thesis by (simp add: handleUnblockUser_def getDoc_def)
    next
      case (Some d)
      show ?thesis
      proof (cases "other \<in> set (orEmpty (blockedUsers d))")
        case True
        with \<open>currentUser p = Some me\<close> False Some show ?thesis
          by (simp add: handleUnblockUser_def getDoc_def updateDoc_def orEmpty_def)
      next
        case notin: False
        with \<open>currentUser p = Some me\<close> False Some show ?thesis
          by (simp add: handleUnblockUser_def getDoc_def)
      qed
    qed
  qed
qed

text \<open>
  Claim C8. Cancelling a request, rejecting a request and unblocking a user, each
  called twice in a row, leave the store exactly as one call leaves it. When the
  first call went through, the second is not a failure either: the cancel completes,
  the reject shows its usual snackbar, and the unblock reports that the user is not
  blocked.
\<close>

theorem cancel_reject_unblock_idempotent:
  "snd (handleCancelRequest user other (snd (handleCancelRequest user other db)))
     = snd (handleCancelRequest user other db)
   \<and> snd (handleRejectConnection user other (snd (handleRejectConnection user other db)))
     = snd (handleRejectConnection user other db)
   \<and> snd (snd (handleUnblockUser other (fst (snd (handleUnblockUser other p db)))
                (snd (snd (handleUnblockUser other p db)))))
     = snd (snd (handleUnblockUser other p db))
   \<and> (fst (handleCancelRequest user other db) = Completed \<longrightarrow>
        fst (handleCancelRequest user other (snd (handleCancelRequest user other db))) = Completed)
   \<and> (fst (handleRejectConnection user other db) = Snackbar ''Connection request rejected!'' \<longrightarrow>
        fst (handleRejectConnection user other (snd (handleRejectConnection user other db)))
          = Snackbar ''Connection request rejected!'')
   \<and> (fst (handleUnblockUser other p db) = Alert ''User unblocked successfully.'' \<longrightarrow>
        fst (handleUnblockUser other (fst (snd (handleUnblockUser other p db)))
               (snd (snd (handleUnblockUser other p db))))
          = Alert ''User is not blocked.'')"
  using handleCancelRequest_twice [of user other db] handleRejectConnection_twice [of user other db]
    handleUnblockUser_twice [of other p db]
  by (intro conjI) (elim conjE, assumption)+

text \<open>
  Alice cancels her request to carol twice, carol rejects alice's request twice, and
  bob unblocks alice twice.
\<close>

theorem cancel_reject_unblock_idempotent_witness:
  "fst (handleCancelRequest (Some ''alice'') ''carol'' dbThree) = Completed
   \<and> fst (handleCancelRequest (Some ''alice'') ''carol''
            (snd (handleCancelRequest (Some ''alice'') ''carol'' dbThree))) = Completed
   \<and> snd (handleCancelRequest (Some ''alice'') ''carol''
            (snd (handleCancelRequest (Some ''alice'') ''carol'' dbThree)))
       = snd (handleCancelRequest (Some ''alice'') ''carol'' dbThree)
   \<and> fst (handleRejectConnection (Some ''carol'') ''alice'' dbThree)
       = Snackbar ''Connection request rejected!''
   \<and> fst (handleRejectConnection (Some ''carol'') ''alice''
            (snd (handleRejectConnection (Some ''carol'') ''alice'' dbThree)))
       = Snackbar ''Connection request rejected!''
   \<and> fst (handleUnblockUser ''alice'' (alicePage\<lparr>currentUser := Some ''bob''\<rparr>) dbThree)
       = Alert ''User unblocked successfully.''
   \<and> fst (handleUnblockUser ''alice''
            (fst (snd (handleUnblockUser ''alice'' (alicePage\<lparr>currentUser := Some ''bob''\<rparr>) dbThree)))
            (snd (snd (handleUnblockUser ''alice'' (alicePage\<lparr>currentUser := Some ''bob''\<rparr>) dbThree))))
       = Alert ''User is not blocked.''"
proof -
  have c: "fst (handleCancelRequest (Some ''alice'') ''carol'' dbThree) = Completed"
    by (simp add: handleCancelRequest_def updateDoc_def dbThree_def)
  have r: "fst (handleRejectConnection (Some ''carol'') ''alice'' dbThree)
       = Snackbar ''Connection request rejected!''"
    by (simp add: handleRejectConnection_def updateDoc_def dbThree_def)
  have u: "fst (handleUnblockUser ''alice'' (alicePage\<lparr>currentUser := Some ''bob''\<rparr>) dbThree)
       = Alert ''User unblocked successfully.''"
    by (simp add: handleUnblockUser_def getDoc_def updateDoc_def dbThree_def userDoc_def
        orEmpty_def alicePage_def Let_def)
  note idem = cancel_reject_unblock_idempotent
  have c2: "fst (handleCancelRequest (Some ''alice'') ''carol''
            (snd (handleCancelRequest (Some ''alice'') ''carol'' dbThree))) = Completed"
    using idem [of "Some ''alice''" "''carol''" dbThree alicePage] c by (elim conjE) simp
  have c3: "snd (handleCancelRequest (Some ''alice'') ''carol''
            (snd (handleCancelRequest (Some ''alice'') ''carol'' dbThree)))
       = snd (handleCancelRequest (Some ''alice'') ''carol'' dbThree)"
    using idem [of "Some ''alice''" "''carol''" dbThree alicePage] by (elim conjE)
  have r2: "fst (handleRejectConnection (Some ''carol'') ''alice''
            (snd (handleRejectConnection (Some ''carol'') ''alice'' dbThree)))
       = Snackbar ''Connection request rejected!''"
    using idem [of "Some ''carol''" "''alice''" dbThree alicePage] r by (elim conjE) simp
  have u2: "fst (handleUnblockUser ''alice''
            (fst (snd (handleUnblockUser ''alice'' (alicePage\<lparr>currentUser := Some ''bob''\<rparr>) dbThree)))
            (snd (snd (handleUnblockUser ''alice'' (alicePage\<lparr>currentUser := Some ''bob''\<rparr>) dbThree))))
       = Alert ''User is not blocked.''"
    using idem [of "Some ''bob''" "''alice''" dbThree "alicePage\<lparr>currentUser := Some ''bob''\<rparr>"] u
    by (elim conjE) simp
  show ?thesis
    using c c2 c3 r r2 u u2 by (intro conjI)
qed

section \<open>Marking messages as seen\<close>

text \<open>
  Claim C9, as the code has it. When a snapshot is delivered, neither user is found to
  block the other, and the messages to be flagged still exist in the store, the
  callback's batch sets \<open>seen\<close> on exactly the messages that the snapshot shows as
  addressed to the current user and unseen: each of them is seen afterwards, every
  other message and every user record is as before, and the page shows the snapshot.
\<close>

theorem onSnapshot_marks_seen:
  assumes cu: "currentUser p = Some me" and su: "selectedUser p = Some other"
    and nb: "\<not> isUserBlocked db me other" "\<not> isUserBlocked db other me"
    and ex: "list_all (\<lambda>i. messages_coll db i \<noteq> None)
               (map fst (filter (\<lambda>(i, m). receiverId m = me \<and> \<not> seen m) snapshot))"
  shows "messages_coll (snd (onSnapshotCallback snapshot p db)) i =
           (if \<exists>m. (i, m) \<in> set snapshot \<and> receiverId m = me \<and> \<not> seen m
            then map_option (\<lambda>d. d\<lparr>seen := True\<rparr>) (messages_coll db i)
            else messages_coll db i)
       \<and> ((\<exists>m. (i, m) \<in> set snapshot \<and> receiverId m = me \<and> \<not> seen m) \<longrightarrow>
            map_option seen (messages_coll (snd (onSnapshotCallback snapshot p db)) i) = Some True)
       \<and> users_coll (snd (onSnapshotCallback snapshot p db)) = users_coll db
       \<and> messages (fst (onSnapshotCallback snapshot p db)) = snapshot"
proof -
  let ?batch = "map fst (filter (\<lambda>(i, m). receiverId m = me \<and> \<not> seen m) snapshot)"
  have bs: "checkMutualBlockStatus db me other =
              \<lparr>user1BlocksUser2 = False, user2BlocksUser1 = False\<rparr>"
    using nb by (simp add: checkMutualBlockStatus_def)
  have res: "onSnapshotCallback snapshot p db =
      (p\<lparr>messages := snapshot\<rparr>,
       db\<lparr>messages_coll :=
            (\<lambda>i. if i \<in> set ?batch then map_option (\<lambda>m. m\<lparr>seen := True\<rparr>) (messages_coll db i)
                 else messages_coll db i)\<rparr>)"
    using cu su bs batchSeen_Fulfilled [OF ex] by (simp add: onSnapshotCallback_def)
  have mem: "i \<in> set ?batch \<longleftrightarrow> (\<exists>m. (i, m) \<in> set snapshot \<and> receiverId m = me \<and> \<not> seen m)"
    by force
  have exi: "messages_coll db i \<noteq> None" if "i \<in> set ?batch"
    using ex that by (simp only: list_all_iff) blast
  have main: "messages_coll (snd (onSnapshotCallback snapshot p db)) i =
           (if i \<in> set ?batch
            then map_option (\<lambda>d. d\<lparr>seen := True\<rparr>) (messages_coll db i)
            else messages_coll db i)
       \<and> (i \<in> set ?batch \<longrightarrow>
            map_option seen (messages_coll (snd (onSnapshotCallback snapshot p db)) i) = Some True)
       \<and> users_coll (snd (onSnapshotCallback snapshot p db)) = users_coll db
       \<and> messages (fst (onSnapshotCallback snapshot p db)) = snapshot"
  proof (cases "i \<in> set ?batch")
    case True
    with exi obtain d where "messages_coll db i = Some d" by blast
    with True show ?thesis by (simp add: res)
  next
    case False
    then show ?thesis by (simp add: res)
  qed
  show ?thesis
    unfolding mem [symmetric] by (fact main)
qed

text \<open>
  Alice opens the conversation with bob, who has not blocked her: bob's unseen message
  to her is seen afterwards.
\<close>

theorem onSnapshot_marks_seen_witness:
  "currentUser alicePage = Some ''alice'' \<and> selectedUser alicePage = Some ''bob''
   \<and> \<not> isUserBlocked dbConnected ''alice'' ''bob'' \<and> \<not> isUserBlocked dbConnected ''bob'' ''alice''
   \<and> receiverId helloFromBob = ''alice'' \<and> \<not> seen helloFromBob
   \<and> map_option seen (messages_coll dbConnected ''m1'') = Some False
   \<and> map_option seen
        (messages_coll (snd (onSnapshotCallback [(''m1'', helloFromBob)] alicePage dbConnected)) ''m1'')
       = Some True
   \<and> messages_coll (snd (onSnapshotCallback [(''m1'', helloFromBob)] alicePage dbConnected)) ''m2''
       = messages_coll dbConnected ''m2''"
proof -
  have cu: "currentUser alicePage = Some ''alice''" and su: "selectedUser alicePage = Some ''bob''"
    by (simp_all add: alicePage_def)
  have nb1: "\<not> isUserBlocked dbConnected ''alice'' ''bob''"
    and nb2: "\<not> isUserBlocked dbConnected ''bob'' ''alice''"
    by (simp_all add: storedBlock_def isUserBlocked_def getDoc_def orEmpty_def
        checkMutualBlockStatus_def dbConnected_def userDoc_def)
  have m: "receiverId helloFromBob = ''alice'' \<and> \<not> seen helloFromBob"
    by (simp add: helloFromBob_def)
  have s0: "map_option seen (messages_coll dbConnected ''m1'') = Some False"
    by (simp add: dbConnected_def helloFromBob_def)
  have ex: "list_all (\<lambda>i. messages_coll dbConnected i \<noteq> None)
      (map fst (filter (\<lambda>(i, m). receiverId m = ''alice'' \<and> \<not> seen m) [(''m1'', helloFromBob)]))"
    by (simp add: dbConnected_def)
  note ms = onSnapshot_marks_seen [OF cu su nb1 nb2 ex]
  have f1: "\<exists>m. (''m1'', m) \<in> set [(''m1'', helloFromBob)] \<and> receiverId m = ''alice'' \<and> \<not> seen m"
    using m by simp
  have f2: "\<not> (\<exists>m. (''m2'', m) \<in> set [(''m1'', helloFromBob)] \<and> receiverId m = ''alice'' \<and> \<not> seen m)"
    by simp
  have s1: "map_option seen
        (messages_coll (snd (onSnapshotCallback [(''m1'', helloFromBob)] alicePage dbConnected)) ''m1'')
       = Some True"
    using ms [of "''m1''"] f1 by (elim conjE) (simp only: simp_thms)
  have s2: "messages_coll (snd (onSnapshotCallback [(''m1'', helloFromBob)] alicePage dbConnected)) ''m2''
       = messages_coll dbConnected ''m2''"
    using ms [of "''m2''"] f2 by (elim conjE) (simp only: if_False)
  show ?thesis
    using cu su nb1 nb2 m s0 s1 s2 by (intro conjI) simp_all
qed

text \<open>
  Claim C9 as stated fails under a block: with bob blocking alice the callback returns
  before the batch, and bob's delivered message to alice stays unseen.
\<close>

theorem onSnapshot_blocked_not_seen_counterexample:
  "currentUser alicePage = Some ''alice''
   \<and> receiverId helloFromBob = ''alice'' \<and> \<not> seen helloFromBob
   \<and> map_option seen
        (messages_coll (snd (onSnapshotCallback [(''m1'', helloFromBob)] alicePage dbBobBlocks)) ''m1'')
       = Some False"
  by (simp add: storedBlock_def isUserBlocked_def getDoc_def orEmpty_def
        checkMutualBlockStatus_def dbBobBlocks_def dbBobBlocksUnreadable_def userDoc_def
      alicePage_def helloFromBob_def onSnapshotCallback_def)

section \<open>The block check fails open\<close>

text \<open>
  Claim C10. \<^verbatim>\<open>isUserBlocked\<close> answers \<open>False\<close> whenever the blocker's
  document is missing or its read fails, and the checks built on it follow: with such a
  blocker \<open>b\<close>, and \<open>a\<close> not found to block \<open>b\<close>, the mutual block status of the pair
  reports no block by \<open>b\<close>, the snapshot callback of either of the two shows the
  delivered messages (when its batch commits), and a non-blank message of either is sent.
\<close>

theorem isUserBlocked_fails_open:
  assumes fail: "users_coll db b = None \<or> b \<in> unreadable db"
    and nb: "\<not> isUserBlocked db a b"
    and pair: "(currentUser p = Some a \<and> selectedUser p = Some b)
             \<or> (currentUser p = Some b \<and> selectedUser p = Some a)"
  shows "\<not> isUserBlocked db b x
    \<and> \<not> user2BlocksUser1 (checkMutualBlockStatus db a b)
    \<and> \<not> user1BlocksUser2 (checkMutualBlockStatus db b a)
    \<and> (list_all (\<lambda>i. messages_coll db i \<noteq> None) (map fst snapshot) \<longrightarrow>
         messages (fst (onSnapshotCallback snapshot p db)) = snapshot)
    \<and> (trim (newMessage p) \<noteq> [] \<longrightarrow>
         fst (handleSendMessage autoId p db) = Completed
         \<and> messages_coll (snd (snd (handleSendMessage autoId p db))) autoId \<noteq> None)"
proof -
  have open_b: "\<not> isUserBlocked db b y" for y
    using fail by (auto simp: isUserBlocked_iff storedBlock_def)
  have bs1: "checkMutualBlockStatus db a b = \<lparr>user1BlocksUser2 = False, user2BlocksUser1 = False\<rparr>"
    using nb open_b by (simp add: checkMutualBlockStatus_def)
  have bs2: "checkMutualBlockStatus db b a = \<lparr>user1BlocksUser2 = False, user2BlocksUser1 = False\<rparr>"
    using nb open_b by (simp add: checkMutualBlockStatus_def)
  have snap: "messages (fst (onSnapshotCallback snapshot p db)) = snapshot"
    if ex: "list_all (\<lambda>i. messages_coll db i \<noteq> None) (map fst snapshot)"
  proof -
    have "list_all (\<lambda>i. messages_coll db i \<noteq> None)
            (map fst (filter (\<lambda>(i, m). receiverId m = me \<and> \<not> seen m) snapshot))" for me
      using ex by (auto simp: list_all_iff)
    then show ?thesis
      using pair bs1 bs2 by (auto simp: onSnapshotCallback_def batchSeen_Fulfilled)
  qed
  have send: "fst (handleSendMessage autoId p db) = Completed
         \<and> messages_coll (snd (snd (handleSendMessage autoId p db))) autoId \<noteq> None"
    if "trim (newMessage p) \<noteq> []"
    using that pair bs1 bs2 by (auto simp: handleSendMessage_def addDoc_def)
  show ?thesis
    using open_b bs1 bs2 snap send by simp
qed

text \<open>
  Bob's document lists alice as blocked but cannot be read: alice is not found blocked,
  sees bob's message and sends her own.
\<close>

theorem isUserBlocked_fails_open_witness:
  "(users_coll dbBobBlocksUnreadable ''bob'' = None \<or> ''bob'' \<in> unreadable dbBobBlocksUnreadable)
   \<and> \<not> isUserBlocked dbBobBlocksUnreadable ''alice'' ''bob''
   \<and> currentUser alicePage = Some ''alice'' \<and> selectedUser alicePage = Some ''bob''
   \<and> storedBlock dbBobBlocksUnreadable ''bob'' ''alice''
   \<and> \<not> isUserBlocked dbBobBlocksUnreadable ''bob'' ''alice''
   \<and> messages (fst (onSnapshotCallback [(''m1'', helloFromBob)] alicePage dbBobBlocksUnreadable))
       = [(''m1'', helloFromBob)]
   \<and> fst (handleSendMessage ''m2'' alicePage dbBobBlocksUnreadable) = Completed"
proof -
  have h1: "users_coll dbBobBlocksUnreadable ''bob'' = None
            \<or> ''bob'' \<in> unreadable dbBobBlocksUnreadable"
    by (simp add: dbBobBlocksUnreadable_def)
  have h2: "\<not> isUserBlocked dbBobBlocksUnreadable ''alice'' ''bob''"
    by (simp add: storedBlock_def isUserBlocked_def getDoc_def orEmpty_def checkMutualBlockStatus_def dbBobBlocksUnreadable_def userDoc_def)
  have h3: "(currentUser alicePage = Some ''alice'' \<and> selectedUser alicePage = Some ''bob'')
          \<or> (currentUser alicePage = Some ''bob'' \<and> selectedUser alicePage = Some ''alice'')"
    by (simp add: alicePage_def)
  have t: "trim (newMessage alicePage) \<noteq> []"
    by (simp add: trim_def alicePage_def isWhiteSpace_def)
  have e: "list_all (\<lambda>i. messages_coll dbBobBlocksUnreadable i \<noteq> None)
             (map fst [(''m1'', helloFromBob)])"
    by (simp add: dbBobBlocksUnreadable_def)
  have s: "storedBlock dbBobBlocksUnreadable ''bob'' ''alice''"
    by (simp add: storedBlock_def isUserBlocked_def getDoc_def orEmpty_def checkMutualBlockStatus_def dbBobBlocksUnreadable_def userDoc_def)
  show ?thesis
    using isUserBlocked_fails_open [OF h1 h2 h3, of "''alice''" "[(''m1'', helloFromBob)]" "''m2''"]
      h1 h2 t e s
    by (simp add: alicePage_def)
qed

end
